theory Spec2Isabelle
  imports Complex_Main "HOL-Library.Multiset" "HOL-Library.Product_Lexorder"
begin

section \<open>Chef's Co-pilot: stock-aware retrieval and substitution resolution\<close>

text \<open>
  A shallow embedding of \<^verbatim>\<open>The Backend/api.py\<close>, and of the inventory part of
  \<^verbatim>\<open>The Backend/ingest_data.py\<close>. Python floats are idealised
  as \<^typ>\<open>real\<close> (no rounding, no NaN, no infinities); every comparison the code makes
  on quantities, thresholds and scores is then the comparison on \<^typ>\<open>real\<close>.
  Python's \<^verbatim>\<open>None\<close> is \<^term>\<open>None\<close>: a value read with \<^verbatim>\<open>dict.get\<close>
  is an \<^typ>\<open>'a option\<close>.
\<close>

subsection \<open>Configuration and the inventory manager\<close>

type_synonym levels = "string \<rightharpoonup> real"
type_synonym thresholds = "string \<rightharpoonup> real"

definition DEFAULT_LOW_THRESHOLD :: real where
  "DEFAULT_LOW_THRESHOLD = 15"

text \<open>
  \<^verbatim>\<open>d.get(key, default)\<close> on a dictionary whose keys are strings. The key that
  is looked up may be \<^verbatim>\<open>None\<close> (a rule without a trigger name); it is never a key
  of the dictionary, so the default comes back.
\<close>

definition dict_get :: "(string \<rightharpoonup> 'v) \<Rightarrow> string option \<Rightarrow> 'v \<Rightarrow> 'v" where
  "dict_get d key dflt =
     (case key of
        None \<Rightarrow> dflt
      | Some k \<Rightarrow> (case d k of None \<Rightarrow> dflt | Some v \<Rightarrow> v))"

definition get_quantity :: "levels \<Rightarrow> string option \<Rightarrow> real" where
  "get_quantity inventory_levels ingredient_name = dict_get inventory_levels ingredient_name 0"

definition get_threshold :: "thresholds \<Rightarrow> string option \<Rightarrow> real" where
  "get_threshold INGREDIENT_THRESHOLDS ingredient_name =
     dict_get INGREDIENT_THRESHOLDS ingredient_name DEFAULT_LOW_THRESHOLD"

definition is_low :: "levels \<Rightarrow> thresholds \<Rightarrow> string option \<Rightarrow> bool" where
  "is_low stock thr ingredient_name \<longleftrightarrow>
     get_quantity stock ingredient_name < get_threshold thr ingredient_name"

definition is_out :: "levels \<Rightarrow> string option \<Rightarrow> bool" where
  "is_out stock ingredient_name \<longleftrightarrow> get_quantity stock ingredient_name \<le> 0"

subsection \<open>Menu candidates\<close>

text \<open>
  One entry of an item's \<^verbatim>\<open>suggested_substitutions\<close> list, as the resolver reads it
  with \<^verbatim>\<open>sub.get(...)\<close>: a key that is absent reads as \<open>None\<close>. The menu builder
  writes all three keys as strings.
\<close>

record sub_rule =
  trigger_ingredient :: "string option"
  suggest_item_name :: "string option"
  rag_justification :: "string option"

record SubstitutionSuggestion =
  original_item :: string
  suggested_item :: string
  reason :: string

text \<open>The dictionary that \<^verbatim>\<open>find_menu_candidates\<close> builds for one search hit.\<close>

record menu_item =
  item_id :: string
  item_name :: string
  item_description :: string
  item_price :: real
  item_score :: real
  suggested_substitutions :: "sub_rule list"
  substitution :: "SubstitutionSuggestion option"
  availability_status :: string

text \<open>
  One hit of the similarity-search backend for the menu collection: its id, document,
  distance and the metadata fields the code reads (the serialized rule list already
  decoded).
\<close>

record menu_hit =
  hit_id :: string
  hit_name :: string
  hit_document :: string
  hit_price :: real
  hit_distance :: real
  hit_substitutions :: "sub_rule list"

definition parse_hit :: "menu_hit \<Rightarrow> menu_item" where
  "parse_hit h =
     \<lparr>item_id = hit_id h, item_name = hit_name h, item_description = hit_document h,
      item_price = hit_price h, item_score = hit_distance h,
      suggested_substitutions = hit_substitutions h,
      substitution = None, availability_status = ''In Stock''\<rparr>"

text \<open>
  \<^verbatim>\<open>find_menu_candidates\<close>: the backend's answer, hit by hit and in its order. An
  unavailable collection or an empty answer is the empty list of hits.
\<close>

definition find_menu_candidates :: "menu_hit list \<Rightarrow> menu_item list" where
  "find_menu_candidates hits = map parse_hit hits"

subsection \<open>Substitution resolver\<close>

text \<open>
  The first loop of \<^verbatim>\<open>check_stock_logic\<close>. The state is the pair
  \<^verbatim>\<open>(trigger_status, active_trigger_name)\<close>; an Out trigger ends the loop
  (\<^verbatim>\<open>break\<close>), a Low trigger overwrites the state and the loop goes on.
\<close>

fun scan_triggers ::
  "levels \<Rightarrow> thresholds \<Rightarrow> sub_rule list \<Rightarrow> string \<times> string option \<Rightarrow> string \<times> string option"
where
  "scan_triggers stock thr [] st = st"
| "scan_triggers stock thr (sub # rest) st =
     (let trigger = trigger_ingredient sub in
      if is_out stock trigger then (''Out of Stock'', trigger)
      else if is_low stock thr trigger then scan_triggers stock thr rest (''Low Stock'', trigger)
      else scan_triggers stock thr rest st)"

text \<open>\<^verbatim>\<open>f"{x}"\<close> for a value that is a string or \<^verbatim>\<open>None\<close>.\<close>

definition py_str :: "string option \<Rightarrow> string" where
  "py_str v = (case v of None \<Rightarrow> ''None'' | Some s \<Rightarrow> s)"

definition make_suggestion :: "string \<Rightarrow> sub_rule \<Rightarrow> SubstitutionSuggestion" where
  "make_suggestion nm sub =
     \<lparr>original_item = nm,
      suggested_item = py_str (suggest_item_name sub),
      reason = (case rag_justification sub of
                  None \<Rightarrow> ''Better availability''
                | Some reason_text \<Rightarrow> reason_text)\<rparr>"

text \<open>
  The second loop: the suggestion built from the first rule whose trigger equals the
  remembered name, or \<open>None\<close> when the loop falls through.
\<close>

fun try_substitute ::
  "string \<Rightarrow> string option \<Rightarrow> sub_rule list \<Rightarrow> SubstitutionSuggestion option"
where
  "try_substitute nm active_trigger_name [] = None"
| "try_substitute nm active_trigger_name (sub # rest) =
     (if trigger_ingredient sub = active_trigger_name then Some (make_suggestion nm sub)
      else try_substitute nm active_trigger_name rest)"

definition check_stock_logic :: "levels \<Rightarrow> thresholds \<Rightarrow> menu_item \<Rightarrow> menu_item" where
  "check_stock_logic stock thr item =
     (let subs_list = suggested_substitutions item;
          st = scan_triggers stock thr subs_list (''In Stock'', None);
          trigger_status = fst st;
          active_trigger_name = snd st
      in if trigger_status = ''In Stock'' then item
         else (case try_substitute (item_name item) active_trigger_name subs_list of
                 Some suggestion \<Rightarrow>
                   item\<lparr>substitution := Some suggestion, availability_status := ''Substituted''\<rparr>
               | None \<Rightarrow> item\<lparr>availability_status := trigger_status\<rparr>))"

subsection \<open>Result ranker\<close>

definition status_priority :: "string \<Rightarrow> nat" where
  "status_priority s =
     (if s = ''In Stock'' then 0
      else if s = ''Substituted'' then 1
      else if s = ''Low Stock'' then 2
      else if s = ''Out of Stock'' then 3
      else 99)"

text \<open>The key is a Python tuple; tuples compare lexicographically.\<close>

definition sort_key_of :: "menu_item \<Rightarrow> nat \<times> real" where
  "sort_key_of item = (status_priority (availability_status item), item_score item)"

text \<open>
  \<^verbatim>\<open>sorted(items, key=sort_key)\<close>. Python's \<^verbatim>\<open>sorted\<close> is a stable sort;
  it is embedded as the stable insertion sort \<^const>\<open>sort_key\<close> of the list library, which
  computes the same list (a stable sort by a key has one result).
\<close>

definition rank_results :: "menu_item list \<Rightarrow> menu_item list" where
  "rank_results items = sort_key sort_key_of items"

subsection \<open>Patron search\<close>

record MenuItemResult =
  r_id :: string
  r_name :: string
  r_description :: string
  r_price :: real
  r_score :: real
  r_substitution :: "SubstitutionSuggestion option"
  r_availability_status :: string

definition to_result :: "menu_item \<Rightarrow> MenuItemResult" where
  "to_result item =
     \<lparr>r_id = item_id item, r_name = item_name item, r_description = item_description item,
      r_price = item_price item, r_score = item_score item,
      r_substitution = substitution item,
      r_availability_status = availability_status item\<rparr>"

definition patron_search :: "levels \<Rightarrow> thresholds \<Rightarrow> menu_hit list \<Rightarrow> MenuItemResult list" where
  "patron_search stock thr hits =
     (let candidates = find_menu_candidates hits;
          checked = map (check_stock_logic stock thr) candidates;
          available_candidates =
            filter (\<lambda>item. availability_status item \<noteq> ''Out of Stock'') checked;
          ranked = rank_results available_candidates
      in map to_result ranked)"

subsection \<open>Inventory aggregation\<close>

text \<open>
  \<^verbatim>\<open>InventoryManager.reload_inventory\<close>. The library functions it calls are
  parameters of the model: \<^verbatim>\<open>str.strip\<close>, \<^verbatim>\<open>datetime.strptime(s, "%m/%d/%Y")\<close>
  (the day number of the parsed date, \<open>None\<close> for \<^verbatim>\<open>ValueError\<close>) and
  \<^verbatim>\<open>float(s)\<close> (\<open>None\<close> for \<^verbatim>\<open>ValueError\<close>).
\<close>

record pylib =
  py_strip :: "string \<Rightarrow> string"
  py_strptime :: "string \<Rightarrow> int option"
  py_float :: "string \<Rightarrow> real option"

text \<open>
  A naive \<^verbatim>\<open>datetime\<close>: the day number and the microseconds since midnight.
  Pairs are ordered lexicographically, as datetimes are.
\<close>

type_synonym datetime = "int \<times> nat"

text \<open>\<^verbatim>\<open>now.replace(hour=0, minute=0, second=0, microsecond=0)\<close>\<close>

definition midnight :: "datetime \<Rightarrow> datetime" where
  "midnight now = (fst now, 0)"

text \<open>
  A row as \<^verbatim>\<open>csv.DictReader\<close> yields it: the text of the cell under each header,
  and \<open>None\<close> under a header for which the line had no cell.
\<close>

type_synonym csv_row = "string \<Rightarrow> string option"

text \<open>
  The body of the loop over the rows, for one row. \<open>Raise\<close> is an exception that the
  inner handlers do not catch (\<^verbatim>\<open>None.strip()\<close>, \<^verbatim>\<open>float(None)\<close>); \<open>Skip\<close>
  is \<^verbatim>\<open>continue\<close>; \<open>Add name qty\<close> is the update of \<^verbatim>\<open>totals\<close>.
\<close>

datatype row_step = Raise | Skip | Add string real

definition read_quantity :: "pylib \<Rightarrow> string \<Rightarrow> string \<Rightarrow> csv_row \<Rightarrow> row_step" where
  "read_quantity L qty_col name row =
     (case row qty_col of
        None \<Rightarrow> Raise
      | Some q \<Rightarrow> (case py_float L q of None \<Rightarrow> Skip | Some qty \<Rightarrow> Add name qty))"

definition process_row ::
  "pylib \<Rightarrow> string \<Rightarrow> string \<Rightarrow> string option \<Rightarrow> datetime \<Rightarrow> csv_row \<Rightarrow> row_step"
where
  "process_row L name_col qty_col exp_col today row =
     (case row name_col of
        None \<Rightarrow> Raise
      | Some raw_name \<Rightarrow>
          (let name = py_strip L raw_name in
           case exp_col of
             None \<Rightarrow> read_quantity L qty_col name row
           | Some ec \<Rightarrow>
               (case row ec of
                  None \<Rightarrow> Raise
                | Some raw_exp \<Rightarrow>
                    (case py_strptime L (py_strip L raw_exp) of
                       None \<Rightarrow> read_quantity L qty_col name row
                     | Some d \<Rightarrow>
                         if ((d, 0) :: datetime) < today then Skip
                         else read_quantity L qty_col name row))))"

text \<open>
  The loop. An exception leaves the loop for the outer handler, which prints it; the
  totals collected so far are then stored.
\<close>

fun load_rows ::
  "pylib \<Rightarrow> string \<Rightarrow> string \<Rightarrow> string option \<Rightarrow> datetime \<Rightarrow> csv_row list \<Rightarrow> levels \<Rightarrow> levels"
where
  "load_rows L name_col qty_col exp_col today [] totals = totals"
| "load_rows L name_col qty_col exp_col today (row # rows) totals =
     (case process_row L name_col qty_col exp_col today row of
        Raise \<Rightarrow> totals
      | Skip \<Rightarrow> load_rows L name_col qty_col exp_col today rows totals
      | Add name qty \<Rightarrow>
          load_rows L name_col qty_col exp_col today rows
            (totals(name \<mapsto> dict_get totals (Some name) 0 + qty)))"

text \<open>
  The lots file after the header detection: the columns found for the name, the
  quantity and the expiration date, and the rows.
\<close>

record lots_file =
  name_col :: "string option"
  qty_col :: "string option"
  exp_col :: "string option"
  lot_rows :: "csv_row list"

text \<open>
  The new \<^verbatim>\<open>inventory_levels\<close>. A missing file (\<open>None\<close>) or a file without a name
  or quantity column returns early and leaves the old levels.
\<close>

definition reload_inventory :: "pylib \<Rightarrow> datetime \<Rightarrow> lots_file option \<Rightarrow> levels \<Rightarrow> levels" where
  "reload_inventory L now file inventory_levels =
     (case file of
        None \<Rightarrow> inventory_levels
      | Some f \<Rightarrow>
          (case (name_col f, qty_col f) of
             (Some nc, Some qc) \<Rightarrow> load_rows L nc qc (exp_col f) (midnight now) (lot_rows f) Map.empty
           | _ \<Rightarrow> inventory_levels))"

text \<open>
  The aggregation in the specification's words, to compare the code with. A lot is
  expired when its expiration date is present, parseable and strictly before the day
  of the as-of date; the aggregate of an ingredient is the sum of the numeric
  quantities of its lots that are not expired, and an ingredient without such a lot is
  not tracked.
\<close>

definition spec_lot_expired :: "pylib \<Rightarrow> string option \<Rightarrow> datetime \<Rightarrow> csv_row \<Rightarrow> bool" where
  "spec_lot_expired L ec as_of row =
     (case ec of
        None \<Rightarrow> False
      | Some c \<Rightarrow>
          (case row c of
             None \<Rightarrow> False
           | Some e \<Rightarrow>
               (case py_strptime L (py_strip L e) of
                  None \<Rightarrow> False
                | Some d \<Rightarrow> d < fst as_of)))"

definition spec_lot_quantity ::
  "pylib \<Rightarrow> string \<Rightarrow> string \<Rightarrow> string option \<Rightarrow> datetime \<Rightarrow> string \<Rightarrow> csv_row \<Rightarrow> real option"
where
  "spec_lot_quantity L nc qc ec as_of n row =
     (case (row nc, row qc) of
        (Some raw_name, Some q) \<Rightarrow>
          if py_strip L raw_name = n \<and> \<not> spec_lot_expired L ec as_of row then py_float L q
          else None
      | _ \<Rightarrow> None)"

definition spec_aggregate ::
  "pylib \<Rightarrow> string \<Rightarrow> string \<Rightarrow> string option \<Rightarrow> datetime \<Rightarrow> csv_row list \<Rightarrow> levels"
where
  "spec_aggregate L nc qc ec as_of rows n =
     (let qs = List.map_filter (spec_lot_quantity L nc qc ec as_of n) rows
      in if qs = [] then None else Some (sum_list qs))"

text \<open>A row is complete when it has a cell under each of the detected columns.\<close>

definition complete_row :: "string \<Rightarrow> string \<Rightarrow> string option \<Rightarrow> csv_row \<Rightarrow> bool" where
  "complete_row nc qc ec row \<longleftrightarrow>
     row nc \<noteq> None \<and> row qc \<noteq> None \<and> (case ec of None \<Rightarrow> True | Some c \<Rightarrow> row c \<noteq> None)"

subsection \<open>Owner full listing\<close>

text \<open>
  A metadata value of a record of the inventory collection: a string or a number. A
  record's metadata is a dictionary of such values.
\<close>

datatype mval = MStr string | MNum real

type_synonym metadata = "string \<rightharpoonup> mval"

datatype py_error = TypeError | ValidationError | ValueError | KeyError

record InventorySearchResult =
  ingredient_name :: string
  category :: string
  current_quantity :: real
  unit :: string
  score :: real
  status :: string

text \<open>\<^verbatim>\<open>meta.get(key, default)\<close>\<close>

definition meta_get :: "metadata \<Rightarrow> string \<Rightarrow> mval \<Rightarrow> mval" where
  "meta_get meta key dflt = (case meta key of None \<Rightarrow> dflt | Some v \<Rightarrow> v)"

text \<open>
  The value of \<^verbatim>\<open>meta.get("ingredient_name")\<close> as a key of the thresholds table:
  only a string can be one of its keys.
\<close>

definition as_key :: "mval option \<Rightarrow> string option" where
  "as_key v = (case v of Some (MStr s) \<Rightarrow> Some s | _ \<Rightarrow> None)"

text \<open>
  \<^verbatim>\<open>status = "High"; if qty <= 0: status = "Out"; elif qty < threshold: status = "Low"\<close>
\<close>

definition stock_status :: "real \<Rightarrow> real \<Rightarrow> string" where
  "stock_status qty threshold =
     (if qty \<le> 0 then ''Out'' else if qty < threshold then ''Low'' else ''High'')"

text \<open>
  The entry built for one record. Comparing a string quantity with 0 raises
  \<^verbatim>\<open>TypeError\<close>; the response model has string fields \<^verbatim>\<open>ingredient_name\<close>,
  \<^verbatim>\<open>category\<close> and \<^verbatim>\<open>unit\<close>, and refuses \<^verbatim>\<open>None\<close> or a number there with a
  validation error.
\<close>

definition inventory_entry ::
  "thresholds \<Rightarrow> real \<Rightarrow> metadata \<Rightarrow> py_error + InventorySearchResult"
where
  "inventory_entry thr sc meta =
     (let name = meta ''ingredient_name'';
          qty = meta_get meta ''current_quantity'' (MNum 0);
          threshold = get_threshold thr (as_key name)
      in case qty of
           MStr _ \<Rightarrow> Inl TypeError
         | MNum q \<Rightarrow>
             (case (name, meta_get meta ''category'' (MStr ''General''),
                    meta_get meta ''unit'' (MStr ''units'')) of
                (Some (MStr n), MStr c, MStr u) \<Rightarrow>
                  Inr \<lparr>ingredient_name = n, category = c, current_quantity = q, unit = u,
                       score = sc, status = stock_status q threshold\<rparr>
              | _ \<Rightarrow> Inl ValidationError))"

text \<open>
  The loop of \<^verbatim>\<open>get_inventory\<close> over the records, with the set of names seen so
  far; the score of every entry is the constant 1.0.
\<close>

fun inventory_loop ::
  "thresholds \<Rightarrow> metadata list \<Rightarrow> mval option list \<Rightarrow> py_error + InventorySearchResult list"
where
  "inventory_loop thr [] seen_ingredients = Inr []"
| "inventory_loop thr (meta # rest) seen_ingredients =
     (let name = meta ''ingredient_name'' in
      if name \<in> set seen_ingredients then inventory_loop thr rest seen_ingredients
      else (case inventory_entry thr 1 meta of
              Inl e \<Rightarrow> Inl e
            | Inr r \<Rightarrow>
                (case inventory_loop thr rest (name # seen_ingredients) of
                   Inl e \<Rightarrow> Inl e
                 | Inr output \<Rightarrow> Inr (r # output))))"

text \<open>
  \<^verbatim>\<open>get_inventory\<close>: \<open>None\<close> is the collection that could not be opened, else the
  metadata of all records, as \<^verbatim>\<open>inventory_collection.get()\<close> returns them.
\<close>

definition get_inventory ::
  "thresholds \<Rightarrow> metadata list option \<Rightarrow> py_error + InventorySearchResult list"
where
  "get_inventory thr inventory_collection =
     (case inventory_collection of
        None \<Rightarrow> Inr []
      | Some metadatas \<Rightarrow> inventory_loop thr metadatas [])"

text \<open>
  \<^verbatim>\<open>ingest_inventory\<close> of \<^verbatim>\<open>ingest_data.py\<close>: the metadata written for one row of
  the lots file, and for all rows. A row without one of the cells the script reads, or
  with a quantity that \<^verbatim>\<open>float\<close> refuses, makes the script raise.
\<close>

definition ingest_row :: "pylib \<Rightarrow> csv_row \<Rightarrow> py_error + metadata" where
  "ingest_row L row =
     (case (row ''IngredientName'', row ''Category'', row ''LotID'', row ''CurrentQuantity'',
            row ''DefaultUnit'', row ''ExpirationDate'') of
        (Some n, Some c, Some l, Some q, Some u, Some e) \<Rightarrow>
          (case py_float L q of
             None \<Rightarrow> Inl ValueError
           | Some v \<Rightarrow>
               Inr [''IngredientName'' \<mapsto> MStr n, ''Category'' \<mapsto> MStr c,
                    ''CurrentQuantity'' \<mapsto> MNum v, ''DefaultUnit'' \<mapsto> MStr u,
                    ''ExpirationDate'' \<mapsto> MStr e])
      | _ \<Rightarrow> Inl KeyError)"

fun ingest_inventory :: "pylib \<Rightarrow> csv_row list \<Rightarrow> py_error + metadata list" where
  "ingest_inventory L [] = Inr []"
| "ingest_inventory L (row # rows) =
     (case ingest_row L row of
        Inl e \<Rightarrow> Inl e
      | Inr m \<Rightarrow>
          (case ingest_inventory L rows of
             Inl e \<Rightarrow> Inl e
           | Inr ms \<Rightarrow> Inr (m # ms)))"

text \<open>
  Notions to state the listing's result. A record is listed without an error when its
  \<^verbatim>\<open>ingredient_name\<close> is a string, its \<^verbatim>\<open>current_quantity\<close> a number or absent,
  and its \<^verbatim>\<open>category\<close> and \<^verbatim>\<open>unit\<close> strings or absent.
\<close>

definition listed_record :: "metadata \<Rightarrow> bool" where
  "listed_record meta \<longleftrightarrow>
     (case meta ''ingredient_name'' of Some (MStr _) \<Rightarrow> True | _ \<Rightarrow> False)
     \<and> (case meta ''current_quantity'' of Some (MStr _) \<Rightarrow> False | _ \<Rightarrow> True)
     \<and> (case meta ''category'' of Some (MNum _) \<Rightarrow> False | _ \<Rightarrow> True)
     \<and> (case meta ''unit'' of Some (MNum _) \<Rightarrow> False | _ \<Rightarrow> True)"

definition record_name :: "metadata \<Rightarrow> string" where
  "record_name meta = (case meta ''ingredient_name'' of Some (MStr n) \<Rightarrow> n | _ \<Rightarrow> [])"

definition record_quantity :: "metadata \<Rightarrow> real" where
  "record_quantity meta = (case meta ''current_quantity'' of Some (MNum q) \<Rightarrow> q | _ \<Rightarrow> 0)"

text \<open>The entry of a listed record, and the records that are first for their name.\<close>

definition entry_of :: "thresholds \<Rightarrow> real \<Rightarrow> metadata \<Rightarrow> InventorySearchResult" where
  "entry_of thr sc meta =
     \<lparr>ingredient_name = record_name meta,
      category = (case meta ''category'' of Some (MStr c) \<Rightarrow> c | _ \<Rightarrow> ''General''),
      current_quantity = record_quantity meta,
      unit = (case meta ''unit'' of Some (MStr u) \<Rightarrow> u | _ \<Rightarrow> ''units''),
      score = sc,
      status = stock_status (record_quantity meta) (get_threshold thr (Some (record_name meta)))\<rparr>"

fun first_records :: "metadata list \<Rightarrow> mval option list \<Rightarrow> metadata list" where
  "first_records [] seen = []"
| "first_records (meta # rest) seen =
     (if meta ''ingredient_name'' \<in> set seen then first_records rest seen
      else meta # first_records rest (meta ''ingredient_name'' # seen))"

subsection \<open>Example data\<close>

text \<open>
  A small pantry and two menu hits, used to run the definitions on concrete inputs.
  No threshold overrides are configured, so every threshold is the default 15.
\<close>

definition pantry :: levels where
  "pantry = [''Lettuce'' \<mapsto> 4, ''Tomato'' \<mapsto> 0, ''Beef'' \<mapsto> 0, ''Bun'' \<mapsto> 40]"

definition lettuce_rule :: sub_rule where
  "lettuce_rule = \<lparr>trigger_ingredient = Some ''Lettuce'', suggest_item_name = Some ''Cabbage Slaw'',
                    rag_justification = Some ''similar crunch''\<rparr>"

definition tomato_rule :: sub_rule where
  "tomato_rule = \<lparr>trigger_ingredient = Some ''Tomato'', suggest_item_name = Some ''Roasted Pepper'',
                   rag_justification = None\<rparr>"

definition bun_rule :: sub_rule where
  "bun_rule = \<lparr>trigger_ingredient = Some ''Bun'', suggest_item_name = Some ''Lettuce Wrap'',
                rag_justification = Some ''lighter''\<rparr>"

definition salad_hit :: menu_hit where
  "salad_hit = \<lparr>hit_id = ''M1'', hit_name = ''Salad'', hit_document = ''Green salad'',
                 hit_price = 7, hit_distance = 2, hit_substitutions = [lettuce_rule, tomato_rule]\<rparr>"

definition wrap_hit :: menu_hit where
  "wrap_hit = \<lparr>hit_id = ''M2'', hit_name = ''Wrap'', hit_document = ''Lettuce wrap'',
                hit_price = 6, hit_distance = 3, hit_substitutions = [bun_rule, lettuce_rule]\<rparr>"

definition burger_hit :: menu_hit where
  "burger_hit = \<lparr>hit_id = ''M3'', hit_name = ''Burger'', hit_document = ''Beef burger'',
                  hit_price = 9, hit_distance = 1, hit_substitutions = [bun_rule]\<rparr>"

text \<open>
  A lots file read on 4 November 2026 at 14:30 (day number 739924), with a small
  instance of the library functions: blanks are stripped, three dates and six
  numbers parse.
\<close>

definition demo_strip :: "string \<Rightarrow> string" where
  "demo_strip s = rev (dropWhile (\<lambda>c. c = CHR '' '') (rev (dropWhile (\<lambda>c. c = CHR '' '') s)))"

definition demo_lib :: pylib where
  "demo_lib =
     \<lparr>py_strip = demo_strip,
      py_strptime = map_of [(''11/03/2026'', 739923), (''11/04/2026'', 739924),
                            (''12/25/2026'', 739975)],
      py_float = map_of [(''0'', 0), (''3'', 3), (''5'', 5), (''7'', 7), (''2.5'', 5 / 2),
                         (''100'', 100)]\<rparr>"

definition demo_now :: datetime where
  "demo_now = (739924, 52200000000)"

definition lot_row :: "string \<Rightarrow> string \<Rightarrow> string \<Rightarrow> csv_row" where
  "lot_row name qty expiry =
     map_of [(''LotID'', ''L'' @ qty), (''IngredientName'', name), (''Category'', ''Produce''),
             (''CurrentQuantity'', qty), (''DefaultUnit'', ''kg''), (''ExpirationDate'', expiry)]"

definition lots_of :: "csv_row list \<Rightarrow> lots_file" where
  "lots_of rows = \<lparr>name_col = Some ''IngredientName'', qty_col = Some ''CurrentQuantity'',
                    exp_col = Some ''ExpirationDate'', lot_rows = rows\<rparr>"

definition demo_lots :: "csv_row list" where
  "demo_lots =
     [lot_row ''Tomato'' ''5'' ''11/03/2026'',
      lot_row ''Tomato'' ''3'' ''11/04/2026'',
      lot_row '' Tomato '' ''2.5'' ''soon'',
      lot_row ''Onion'' ''lots'' ''12/25/2026'',
      lot_row ''Onion'' ''7'' []]"

text \<open>
  A line of the lots file that ends after the unit: it has no cell under the last
  header, \<^verbatim>\<open>ExpirationDate\<close>. In \<open>short_lots\<close> such a line for Tomato comes before
  a full line for Onion.
\<close>

definition short_lot_row :: "string \<Rightarrow> string \<Rightarrow> csv_row" where
  "short_lot_row name qty =
     map_of [(''LotID'', ''L'' @ qty), (''IngredientName'', name), (''Category'', ''Produce''),
             (''CurrentQuantity'', qty), (''DefaultUnit'', ''kg'')]"

definition short_lots :: "csv_row list" where
  "short_lots = [short_lot_row ''Tomato'' ''5'', lot_row ''Onion'' ''7'' ''12/25/2026'']"

text \<open>
  Two lots of one ingredient; the record that \<^verbatim>\<open>ingest_inventory\<close> writes for such a
  lot; and a record with the keys that \<^verbatim>\<open>get_inventory\<close> reads.
\<close>

definition tomato_lots :: "csv_row list" where
  "tomato_lots = [lot_row ''Tomato'' ''0'' [], lot_row ''Tomato'' ''100'' []]"

definition ingested_lot :: "string \<Rightarrow> real \<Rightarrow> string \<Rightarrow> metadata" where
  "ingested_lot name qty expiry =
     [''IngredientName'' \<mapsto> MStr name, ''Category'' \<mapsto> MStr ''Produce'',
      ''CurrentQuantity'' \<mapsto> MNum qty, ''DefaultUnit'' \<mapsto> MStr ''kg'',
      ''ExpirationDate'' \<mapsto> MStr expiry]"

definition lot_record :: "string \<Rightarrow> real \<Rightarrow> metadata" where
  "lot_record name qty =
     [''ingredient_name'' \<mapsto> MStr name, ''category'' \<mapsto> MStr ''Produce'',
      ''current_quantity'' \<mapsto> MNum qty, ''unit'' \<mapsto> MStr ''kg'']"

section \<open>Properties\<close>

subsection \<open>Threshold resolver\<close>

text \<open>
  C5. For every ingredient name, \<open>is_low\<close> holds exactly when the quantity is strictly
  below the resolved threshold (so it is false when the quantity equals the threshold),
  \<open>is_out\<close> holds exactly when the quantity is at most 0, the threshold is the
  per-ingredient override or else the global default 15, and a name that is absent from
  the tracked state (or a missing trigger name, \<open>None\<close>) has quantity 0 and is Out.
\<close>

theorem low_out_classification:
  "(is_low stock thr n \<longleftrightarrow> get_quantity stock n < get_threshold thr n)
   \<and> (get_quantity stock n = get_threshold thr n \<longrightarrow> \<not> is_low stock thr n)
   \<and> (is_out stock n \<longleftrightarrow> get_quantity stock n \<le> 0)
   \<and> get_threshold thr (Some k) = (case thr k of None \<Rightarrow> 15 | Some t \<Rightarrow> t)
   \<and> (stock k = None \<longrightarrow> get_quantity stock (Some k) = 0 \<and> is_out stock (Some k))
   \<and> get_quantity stock None = 0 \<and> is_out stock None"
  by (simp add: is_low_def is_out_def get_quantity_def get_threshold_def dict_get_def
      DEFAULT_LOW_THRESHOLD_def)

theorem low_out_classification_witness:
  "\<not> is_low [''Flour'' \<mapsto> 15] Map.empty (Some ''Flour'')
   \<and> is_low [''Flour'' \<mapsto> 14] Map.empty (Some ''Flour'')
   \<and> get_quantity [''Flour'' \<mapsto> 15] (Some ''Flour'') = get_threshold Map.empty (Some ''Flour'')
   \<and> [''Flour'' \<mapsto> (15::real)] ''Saffron'' = None
   \<and> get_quantity [''Flour'' \<mapsto> 15] (Some ''Saffron'') = 0
   \<and> is_out [''Flour'' \<mapsto> 15] (Some ''Saffron'')"
  using low_out_classification [of "[''Flour'' \<mapsto> 15]" Map.empty "Some ''Flour''" "''Saffron''"]
    low_out_classification [of "[''Flour'' \<mapsto> 14]" Map.empty "Some ''Flour''" "''Saffron''"]
  by (simp add: get_quantity_def get_threshold_def dict_get_def DEFAULT_LOW_THRESHOLD_def)

subsection \<open>The two scans of the resolver\<close>

lemmas stock_eval = is_out_def is_low_def get_quantity_def get_threshold_def dict_get_def
  DEFAULT_LOW_THRESHOLD_def

lemmas example_data = pantry_def lettuce_rule_def tomato_rule_def bun_rule_def
  salad_hit_def wrap_hit_def burger_hit_def

lemma find_Some_sat: "find P xs = Some r \<Longrightarrow> P r \<and> r \<in> set xs"
  by (induction xs) (auto split: if_splits)

text \<open>The first Out trigger ends the scan, whatever the state was before it.\<close>

lemma scan_triggers_first_out:
  "find (\<lambda>s. is_out stock (trigger_ingredient s)) subs = Some r
   \<Longrightarrow> scan_triggers stock thr subs st = (''Out of Stock'', trigger_ingredient r)"
  by (induction subs arbitrary: st) (auto simp: Let_def split: if_splits)

lemma scan_triggers_quiet:
  "\<forall>s\<in>set subs. \<not> is_out stock (trigger_ingredient s) \<and> \<not> is_low stock thr (trigger_ingredient s)
   \<Longrightarrow> scan_triggers stock thr subs st = st"
  by (induction subs arbitrary: st) (auto simp: Let_def)

text \<open>
  When some rule triggers, the scan ends in Low or Out and the remembered name is the
  trigger of a rule of the scanned list.
\<close>

lemma scan_triggers_remembers:
  "\<exists>s\<in>set subs. is_out stock (trigger_ingredient s) \<or> is_low stock thr (trigger_ingredient s)
   \<Longrightarrow> (fst (scan_triggers stock thr subs st) = ''Out of Stock''
          \<or> fst (scan_triggers stock thr subs st) = ''Low Stock'')
       \<and> snd (scan_triggers stock thr subs st) \<in> trigger_ingredient ` set subs"
proof (induction subs arbitrary: st)
  case Nil
  then show ?case by simp
next
  case (Cons sub rest)
  show ?case
  proof (cases "is_out stock (trigger_ingredient sub)")
    case True
    then show ?thesis by (simp add: Let_def)
  next
    case out: False
    show ?thesis
    proof (cases "\<exists>s\<in>set rest. is_out stock (trigger_ingredient s)
                    \<or> is_low stock thr (trigger_ingredient s)")
      case True
      from Cons.IH [OF True] out show ?thesis by (auto simp: Let_def)
    next
      case False
      then have quiet: "scan_triggers stock thr rest st' = st'" for st'
        using scan_triggers_quiet [of rest stock thr] by blast
      from False Cons.prems out have "is_low stock thr (trigger_ingredient sub)" by auto
      with out quiet show ?thesis by (simp add: Let_def)
    qed
  qed
qed

lemma scan_triggers_in_stock_iff:
  "fst (scan_triggers stock thr subs (''In Stock'', None)) = ''In Stock'' \<longleftrightarrow>
   (\<forall>s\<in>set subs. \<not> is_out stock (trigger_ingredient s) \<and> \<not> is_low stock thr (trigger_ingredient s))"
proof (cases "\<exists>s\<in>set subs. is_out stock (trigger_ingredient s)
                \<or> is_low stock thr (trigger_ingredient s)")
  case True
  from scan_triggers_remembers [OF True, of "(''In Stock'', None)"] True
  show ?thesis by auto
next
  case False
  then have "scan_triggers stock thr subs (''In Stock'', None) = (''In Stock'', None)"
    by (intro scan_triggers_quiet) blast
  with False show ?thesis by auto
qed

text \<open>The second loop is a search for the first rule with the remembered trigger.\<close>

lemma try_substitute_find:
  "try_substitute nm a subs =
     map_option (make_suggestion nm) (find (\<lambda>s. trigger_ingredient s = a) subs)"
  by (induction subs) auto

lemma try_substitute_member:
  "a \<in> trigger_ingredient ` set subs \<Longrightarrow> try_substitute nm a subs \<noteq> None"
  by (induction subs) auto

text \<open>
  The first rule that carries the name of the first Out rule is that rule itself: an
  earlier rule with the same trigger would have been Out already.
\<close>

lemma find_same_trigger:
  "find (\<lambda>s. is_out stock (trigger_ingredient s)) subs = Some r
   \<Longrightarrow> find (\<lambda>s. trigger_ingredient s = trigger_ingredient r) subs = Some r"
proof (induction subs)
  case Nil
  then show ?case by simp
next
  case (Cons a subs)
  from Cons.prems have r_out: "is_out stock (trigger_ingredient r)"
    by (rule find_Some_sat [THEN conjunct1])
  show ?case
  proof (cases "is_out stock (trigger_ingredient a)")
    case True
    with Cons.prems show ?thesis by simp
  next
    case False
    with r_out have "trigger_ingredient a \<noteq> trigger_ingredient r" by auto
    with False Cons show ?thesis by simp
  qed
qed

text \<open>
  What \<open>check_stock_logic\<close> returns, by whether any rule triggers: the item as it came,
  or the item marked Substituted with the suggestion of the second loop.
\<close>

lemma check_stock_logic_cases:
  "check_stock_logic stock thr item =
     (if \<forall>s\<in>set (suggested_substitutions item).
           \<not> is_out stock (trigger_ingredient s) \<and> \<not> is_low stock thr (trigger_ingredient s)
      then item
      else item\<lparr>substitution :=
                   try_substitute (item_name item)
                     (snd (scan_triggers stock thr (suggested_substitutions item) (''In Stock'', None)))
                     (suggested_substitutions item),
                availability_status := ''Substituted''\<rparr>)"
proof (cases "\<forall>s\<in>set (suggested_substitutions item).
           \<not> is_out stock (trigger_ingredient s) \<and> \<not> is_low stock thr (trigger_ingredient s)")
  case True
  then show ?thesis
    using scan_triggers_in_stock_iff [of stock thr "suggested_substitutions item"]
    by (simp add: check_stock_logic_def Let_def)
next
  case False
  then have trig: "\<exists>s\<in>set (suggested_substitutions item).
            is_out stock (trigger_ingredient s) \<or> is_low stock thr (trigger_ingredient s)"
    by blast
  from scan_triggers_remembers [OF trig, of "(''In Stock'', None)"]
  have "try_substitute (item_name item)
          (snd (scan_triggers stock thr (suggested_substitutions item) (''In Stock'', None)))
          (suggested_substitutions item) \<noteq> None"
    by (intro try_substitute_member) simp
  moreover from False
  have "fst (scan_triggers stock thr (suggested_substitutions item) (''In Stock'', None))
          \<noteq> ''In Stock''"
    by (simp add: scan_triggers_in_stock_iff)
  ultimately show ?thesis using False
    by (auto simp: check_stock_logic_def Let_def)
qed

lemma check_stock_logic_substituted:
  "\<exists>s\<in>set (suggested_substitutions item).
       is_out stock (trigger_ingredient s) \<or> is_low stock thr (trigger_ingredient s)
   \<Longrightarrow> availability_status (check_stock_logic stock thr item) = ''Substituted''
     \<and> substitution (check_stock_logic stock thr item) \<noteq> None"
  using scan_triggers_remembers [of "suggested_substitutions item" stock thr "(''In Stock'', None)"]
    try_substitute_member [of "snd (scan_triggers stock thr (suggested_substitutions item)
         (''In Stock'', None))" "suggested_substitutions item" "item_name item"]
  by (auto simp: check_stock_logic_cases)

lemma check_stock_logic_quiet:
  "\<forall>s\<in>set (suggested_substitutions item).
       \<not> is_out stock (trigger_ingredient s) \<and> \<not> is_low stock thr (trigger_ingredient s)
   \<Longrightarrow> check_stock_logic stock thr item = item"
  by (simp add: check_stock_logic_cases)

lemma check_candidate_status:
  "availability_status (check_stock_logic stock thr (parse_hit h)) = ''In Stock''
   \<or> availability_status (check_stock_logic stock thr (parse_hit h)) = ''Substituted''"
  by (simp add: check_stock_logic_cases parse_hit_def)

lemma filter_checked_candidates:
  "filter (\<lambda>item. availability_status item \<noteq> ''Out of Stock'')
      (map (check_stock_logic stock thr) (find_menu_candidates hits))
   = map (check_stock_logic stock thr) (find_menu_candidates hits)"
proof -
  have "availability_status (check_stock_logic stock thr (parse_hit h)) \<noteq> ''Out of Stock''" for h
    using check_candidate_status [of stock thr h] by auto
  then show ?thesis
    by (simp add: find_menu_candidates_def)
qed

subsection \<open>Precedence of an Out trigger\<close>

text \<open>
  C1. The resolver scans the rules in stored order. When \<open>r\<close> is the first rule whose
  trigger is Out, the scan ends with status Out and \<open>r\<close>'s trigger remembered, whatever
  state earlier (Low) rules left behind; and the candidate comes back Substituted with
  the suggestion built from \<open>r\<close>, never from an earlier Low rule. For rules
  \<open>[A, B]\<close> with A Low and B Out the result is built from B's rule.
\<close>

theorem out_trigger_precedence:
  assumes "find (\<lambda>s. is_out stock (trigger_ingredient s)) (suggested_substitutions item) = Some r"
  shows "scan_triggers stock thr (suggested_substitutions item) st
           = (''Out of Stock'', trigger_ingredient r)
    \<and> check_stock_logic stock thr item =
        item\<lparr>substitution := Some (make_suggestion (item_name item) r),
             availability_status := ''Substituted''\<rparr>"
  using scan_triggers_first_out [OF assms] find_same_trigger [OF assms]
  by (simp add: check_stock_logic_def Let_def try_substitute_find)

text \<open>
  The salad has the rules \<open>[Lettuce, Tomato]\<close>; Lettuce is Low (4 of 15) and Tomato is
  Out. The suggestion is the Tomato rule's.
\<close>

theorem out_trigger_precedence_witness:
  "find (\<lambda>s. is_out pantry (trigger_ingredient s)) [lettuce_rule, tomato_rule] = Some tomato_rule
   \<and> is_low pantry Map.empty (Some ''Lettuce'')
   \<and> \<not> is_out pantry (Some ''Lettuce'')
   \<and> is_out pantry (Some ''Tomato'')
   \<and> scan_triggers pantry Map.empty [lettuce_rule, tomato_rule] (''In Stock'', None)
       = (''Out of Stock'', Some ''Tomato'')
   \<and> availability_status (check_stock_logic pantry Map.empty (parse_hit salad_hit)) = ''Substituted''
   \<and> substitution (check_stock_logic pantry Map.empty (parse_hit salad_hit))
       = Some \<lparr>original_item = ''Salad'', suggested_item = ''Roasted Pepper'',
               reason = ''Better availability''\<rparr>"
proof -
  have h: "find (\<lambda>s. is_out pantry (trigger_ingredient s))
             (suggested_substitutions (parse_hit salad_hit)) = Some tomato_rule"
    by (simp add: stock_eval example_data parse_hit_def)
  from out_trigger_precedence [OF h, of Map.empty "(''In Stock'', None)"] h
  show ?thesis
    by (simp add: stock_eval example_data parse_hit_def make_suggestion_def py_str_def)
qed

subsection \<open>The suggestion comes from the first matching rule\<close>

text \<open>
  C2. When some rule's trigger is Low or Out, and \<open>r\<close> is the first rule in stored order
  whose trigger equals the remembered trigger, the resolver sets the availability to
  Substituted and attaches the suggestion whose \<open>suggested_item\<close> is \<open>r\<close>'s suggested
  item name (formatted as a string: a present name \<open>n\<close> is \<open>n\<close> itself) and whose
  reason is \<open>r\<close>'s justification, or the generic text when \<open>r\<close> has none.
\<close>

theorem substitution_from_first_matching_rule:
  assumes trig: "\<exists>s\<in>set (suggested_substitutions item).
            is_out stock (trigger_ingredient s) \<or> is_low stock thr (trigger_ingredient s)"
    and first: "find (\<lambda>s. trigger_ingredient s =
                  snd (scan_triggers stock thr (suggested_substitutions item) (''In Stock'', None)))
              (suggested_substitutions item) = Some r"
  shows "availability_status (check_stock_logic stock thr item) = ''Substituted''
    \<and> substitution (check_stock_logic stock thr item) =
        Some \<lparr>original_item = item_name item,
              suggested_item = py_str (suggest_item_name r),
              reason = (case rag_justification r of
                          None \<Rightarrow> ''Better availability'' | Some t \<Rightarrow> t)\<rparr>
    \<and> py_str (Some n) = n"
proof -
  from trig
  have "fst (scan_triggers stock thr (suggested_substitutions item) (''In Stock'', None))
      \<noteq> ''In Stock''"
    by (simp add: scan_triggers_in_stock_iff)
  with first show ?thesis
    by (simp add: check_stock_logic_def Let_def try_substitute_find make_suggestion_def py_str_def)
qed

text \<open>
  The wrap has the rules \<open>[Bun, Lettuce]\<close>; only Lettuce triggers, and it is Low. The
  suggestion is the Lettuce rule's name and justification.
\<close>

theorem substitution_from_first_matching_rule_witness:
  "\<not> is_out pantry (Some ''Bun'') \<and> \<not> is_low pantry Map.empty (Some ''Bun'')
   \<and> \<not> is_out pantry (Some ''Lettuce'') \<and> is_low pantry Map.empty (Some ''Lettuce'')
   \<and> find (\<lambda>s. trigger_ingredient s =
             snd (scan_triggers pantry Map.empty [bun_rule, lettuce_rule] (''In Stock'', None)))
        [bun_rule, lettuce_rule] = Some lettuce_rule
   \<and> availability_status (check_stock_logic pantry Map.empty (parse_hit wrap_hit)) = ''Substituted''
   \<and> substitution (check_stock_logic pantry Map.empty (parse_hit wrap_hit))
       = Some \<lparr>original_item = ''Wrap'', suggested_item = ''Cabbage Slaw'',
               reason = ''similar crunch''\<rparr>"
proof -
  have t: "\<exists>s\<in>set (suggested_substitutions (parse_hit wrap_hit)).
            is_out pantry (trigger_ingredient s) \<or> is_low pantry Map.empty (trigger_ingredient s)"
    by (simp add: stock_eval example_data parse_hit_def)
  have f: "find (\<lambda>s. trigger_ingredient s =
                  snd (scan_triggers pantry Map.empty (suggested_substitutions (parse_hit wrap_hit))
                         (''In Stock'', None)))
              (suggested_substitutions (parse_hit wrap_hit)) = Some lettuce_rule"
    by (simp add: stock_eval example_data parse_hit_def)
  from substitution_from_first_matching_rule [OF t f] f
  show ?thesis
    by (simp add: stock_eval example_data parse_hit_def py_str_def)
qed

subsection \<open>The resolver's invariant\<close>

text \<open>
  C9. For every candidate the resolver returns (a candidate is what
  \<open>find_menu_candidates\<close> builds from a hit): if its availability is Out then no rule
  of the candidate has the remembered trigger, that is, no substitution could be
  built; and if its availability is Substituted then it carries a suggestion.
\<close>

theorem resolver_invariant:
  "(availability_status (check_stock_logic stock thr (parse_hit h)) = ''Out of Stock'' \<longrightarrow>
      \<not> (\<exists>s\<in>set (hit_substitutions h). trigger_ingredient s =
            snd (scan_triggers stock thr (hit_substitutions h) (''In Stock'', None))))
   \<and> (availability_status (check_stock_logic stock thr (parse_hit h)) = ''Substituted'' \<longrightarrow>
      substitution (check_stock_logic stock thr (parse_hit h)) \<noteq> None)"
proof -
  let ?c = "check_stock_logic stock thr (parse_hit h)"
  have "availability_status ?c \<noteq> ''Out of Stock''"
    using check_candidate_status [of stock thr h] by auto
  moreover have "substitution ?c \<noteq> None" if "availability_status ?c = ''Substituted''"
  proof (cases "\<exists>s\<in>set (suggested_substitutions (parse_hit h)).
       is_out stock (trigger_ingredient s) \<or> is_low stock thr (trigger_ingredient s)")
    case True
    from check_stock_logic_substituted [OF True] show ?thesis by simp
  next
    case False
    then have "?c = parse_hit h" by (intro check_stock_logic_quiet) blast
    with that show ?thesis by (simp add: parse_hit_def)
  qed
  ultimately show ?thesis by blast
qed

theorem resolver_invariant_witness:
  "availability_status (check_stock_logic pantry Map.empty (parse_hit salad_hit)) = ''Substituted''
   \<and> substitution (check_stock_logic pantry Map.empty (parse_hit salad_hit)) \<noteq> None"
proof -
  have "availability_status (check_stock_logic pantry Map.empty (parse_hit salad_hit))
          = ''Substituted''"
    by (simp add: check_stock_logic_def Let_def stock_eval example_data parse_hit_def)
  with resolver_invariant [of pantry Map.empty salad_hit] show ?thesis by blast
qed

subsection \<open>The fallback branch is dead\<close>

text \<open>
  C10. Whenever some rule of a candidate has a Low or Out trigger, the second scan
  finds a rule with the remembered trigger, so the candidate comes back Substituted.
  The resolver therefore never returns 'Low Stock' or 'Out of Stock' for a candidate,
  the patron flow's filter removes nothing, and the response has one entry per hit.
\<close>

theorem fallback_unreachable:
  "((\<exists>s\<in>set (hit_substitutions h).
        is_out stock (trigger_ingredient s) \<or> is_low stock thr (trigger_ingredient s)) \<longrightarrow>
      try_substitute (hit_name h)
        (snd (scan_triggers stock thr (hit_substitutions h) (''In Stock'', None)))
        (hit_substitutions h) \<noteq> None
      \<and> availability_status (check_stock_logic stock thr (parse_hit h)) = ''Substituted'')
   \<and> availability_status (check_stock_logic stock thr (parse_hit h)) \<noteq> ''Low Stock''
   \<and> availability_status (check_stock_logic stock thr (parse_hit h)) \<noteq> ''Out of Stock''
   \<and> filter (\<lambda>item. availability_status item \<noteq> ''Out of Stock'')
        (map (check_stock_logic stock thr) (find_menu_candidates hits))
      = map (check_stock_logic stock thr) (find_menu_candidates hits)
   \<and> length (patron_search stock thr hits) = length hits"
proof -
  have a: "try_substitute (hit_name h)
        (snd (scan_triggers stock thr (hit_substitutions h) (''In Stock'', None)))
        (hit_substitutions h) \<noteq> None
      \<and> availability_status (check_stock_logic stock thr (parse_hit h)) = ''Substituted''"
    if t: "\<exists>s\<in>set (hit_substitutions h).
        is_out stock (trigger_ingredient s) \<or> is_low stock thr (trigger_ingredient s)"
  proof -
    from scan_triggers_remembers [OF t, of "(''In Stock'', None)"]
    have "try_substitute (hit_name h)
        (snd (scan_triggers stock thr (hit_substitutions h) (''In Stock'', None)))
        (hit_substitutions h) \<noteq> None"
      by (intro try_substitute_member) simp
    moreover from t
    have "availability_status (check_stock_logic stock thr (parse_hit h)) = ''Substituted''"
      using check_stock_logic_substituted [of "parse_hit h" stock thr]
      by (simp add: parse_hit_def)
    ultimately show ?thesis by simp
  qed
  have b: "availability_status (check_stock_logic stock thr (parse_hit h)) \<noteq> ''Low Stock''
   \<and> availability_status (check_stock_logic stock thr (parse_hit h)) \<noteq> ''Out of Stock''"
    using check_candidate_status [of stock thr h] by auto
  have c: "length (patron_search stock thr hits) = length hits"
    unfolding patron_search_def Let_def filter_checked_candidates
    by (simp add: rank_results_def find_menu_candidates_def)
  from a b c filter_checked_candidates [of stock thr hits] show ?thesis by blast
qed

text \<open>
  The salad's Tomato is Out and its Lettuce is Low: it is Substituted, not dropped,
  and the three hits give three results.
\<close>

theorem fallback_unreachable_witness:
  "is_out pantry (trigger_ingredient tomato_rule)
   \<and> tomato_rule \<in> set (hit_substitutions salad_hit)
   \<and> try_substitute (hit_name salad_hit)
        (snd (scan_triggers pantry Map.empty (hit_substitutions salad_hit) (''In Stock'', None)))
        (hit_substitutions salad_hit) \<noteq> None
   \<and> availability_status (check_stock_logic pantry Map.empty (parse_hit salad_hit)) = ''Substituted''
   \<and> length (patron_search pantry Map.empty [burger_hit, salad_hit, wrap_hit]) = 3"
proof -
  have t: "is_out pantry (trigger_ingredient tomato_rule)
             \<and> tomato_rule \<in> set (hit_substitutions salad_hit)"
    by (simp add: stock_eval example_data)
  then have "\<exists>s\<in>set (hit_substitutions salad_hit).
        is_out pantry (trigger_ingredient s) \<or> is_low pantry Map.empty (trigger_ingredient s)"
    by blast
  with fallback_unreachable [of salad_hit pantry Map.empty "[burger_hit, salad_hit, wrap_hit]"] t
  show ?thesis by simp
qed

subsection \<open>Result ranker\<close>

text \<open>
  C7. The ranker is a stable sort by the key (tier, score): its output is sorted by
  that key and is a permutation of its input; the candidates that share any one key
  \<open>k\<close> (same tier and same score) stand in the output in their input order; keys
  compare by tier first and by score, ascending, second; and the tiers are
  In Stock 0, Substituted 1, Low Stock 2, Out of Stock 3.
\<close>

theorem rank_results_stable_sort:
  "sorted (map sort_key_of (rank_results items))
   \<and> mset (rank_results items) = mset items
   \<and> filter (\<lambda>x. sort_key_of x = k) (rank_results items) = filter (\<lambda>x. sort_key_of x = k) items
   \<and> (sort_key_of a \<le> sort_key_of b \<longleftrightarrow>
        status_priority (availability_status a) < status_priority (availability_status b)
        \<or> (status_priority (availability_status a) = status_priority (availability_status b)
           \<and> item_score a \<le> item_score b))
   \<and> status_priority ''In Stock'' = 0 \<and> status_priority ''Substituted'' = 1
   \<and> status_priority ''Low Stock'' = 2 \<and> status_priority ''Out of Stock'' = 3"
proof -
  have "sort_key_of a \<le> sort_key_of b \<longleftrightarrow>
        status_priority (availability_status a) < status_priority (availability_status b)
        \<or> (status_priority (availability_status a) = status_priority (availability_status b)
           \<and> item_score a \<le> item_score b)"
    by (auto simp: sort_key_of_def less_eq_prod_def)
  then show ?thesis
    by (simp add: rank_results_def sort_key_stable status_priority_def)
qed

text \<open>
  Four candidates: a Substituted salad, then two In Stock candidates with the same
  score 3 (the wrap before the second burger), then an In Stock burger with score 1.
  The two tied candidates keep their order.
\<close>

theorem rank_results_stable_sort_witness:
  "rank_results
     [(parse_hit salad_hit)\<lparr>availability_status := ''Substituted''\<rparr>,
      parse_hit wrap_hit,
      (parse_hit burger_hit)\<lparr>item_score := 3\<rparr>,
      parse_hit burger_hit]
   = [parse_hit burger_hit,
      parse_hit wrap_hit,
      (parse_hit burger_hit)\<lparr>item_score := 3\<rparr>,
      (parse_hit salad_hit)\<lparr>availability_status := ''Substituted''\<rparr>]
   \<and> filter (\<lambda>x. sort_key_of x = (0, 3))
       (rank_results
         [(parse_hit salad_hit)\<lparr>availability_status := ''Substituted''\<rparr>,
          parse_hit wrap_hit,
          (parse_hit burger_hit)\<lparr>item_score := 3\<rparr>,
          parse_hit burger_hit])
     = [parse_hit wrap_hit, (parse_hit burger_hit)\<lparr>item_score := 3\<rparr>]"
  using rank_results_stable_sort
    [of "[(parse_hit salad_hit)\<lparr>availability_status := ''Substituted''\<rparr>,
          parse_hit wrap_hit,
          (parse_hit burger_hit)\<lparr>item_score := 3\<rparr>,
          parse_hit burger_hit]" "(0, 3)"]
  by (simp add: rank_results_def sort_key_of_def status_priority_def parse_hit_def example_data)

subsection \<open>Patron search\<close>

text \<open>
  C8. No entry of the patron response has availability Out, whatever its score: the
  patron flow resolves every candidate, drops those whose availability is Out, ranks
  what is left and projects it; and ranking the filtered list leaves no Out candidate
  in it, for any list of resolved candidates.
\<close>

theorem patron_never_sees_out:
  "(\<forall>r\<in>set (patron_search stock thr hits). r_availability_status r \<noteq> ''Out of Stock'')
   \<and> (\<forall>x\<in>set (rank_results
                 (filter (\<lambda>item. availability_status item \<noteq> ''Out of Stock'') checked)).
         availability_status x \<noteq> ''Out of Stock'')
   \<and> patron_search stock thr hits =
       map to_result (rank_results (filter (\<lambda>item. availability_status item \<noteq> ''Out of Stock'')
         (map (check_stock_logic stock thr) (find_menu_candidates hits))))"
  by (auto simp: patron_search_def Let_def rank_results_def to_result_def)

theorem patron_never_sees_out_witness:
  "map r_availability_status (patron_search pantry Map.empty [salad_hit, wrap_hit, burger_hit])
     = [''In Stock'', ''Substituted'', ''Substituted'']
   \<and> map r_name (patron_search pantry Map.empty [salad_hit, wrap_hit, burger_hit])
     = [''Burger'', ''Salad'', ''Wrap'']
   \<and> rank_results (filter (\<lambda>item. availability_status item \<noteq> ''Out of Stock'')
        [(parse_hit burger_hit)\<lparr>availability_status := ''Out of Stock''\<rparr>, parse_hit wrap_hit])
     = [parse_hit wrap_hit]"
  using patron_never_sees_out [of pantry Map.empty "[salad_hit, wrap_hit, burger_hit]"
    "[(parse_hit burger_hit)\<lparr>availability_status := ''Out of Stock''\<rparr>, parse_hit wrap_hit]"]
  by (simp add: patron_search_def Let_def find_menu_candidates_def check_stock_logic_def
      rank_results_def sort_key_of_def status_priority_def to_result_def make_suggestion_def
      py_str_def parse_hit_def stock_eval example_data)

text \<open>
  C3 as the specification states it: Beef has quantity 0, no rule of the Burger
  refers to Beef, and the Burger is to be absent from the patron response. On the code
  the Burger is returned, In Stock: the resolver reads nothing of an item but the
  triggers of its substitution rules.
\<close>

theorem beef_burger_counterexample:
  "get_quantity pantry (Some ''Beef'') = 0
   \<and> is_out pantry (Some ''Beef'')
   \<and> map trigger_ingredient (hit_substitutions burger_hit) = [Some ''Bun'']
   \<and> patron_search pantry Map.empty [burger_hit]
     = [\<lparr>r_id = ''M3'', r_name = ''Burger'', r_description = ''Beef burger'', r_price = 9,
          r_score = 1, r_substitution = None, r_availability_status = ''In Stock''\<rparr>]"
  by (simp add: patron_search_def Let_def find_menu_candidates_def check_stock_logic_def
      rank_results_def to_result_def parse_hit_def stock_eval example_data)

text \<open>
  C3, amended. A candidate is judged by the trigger ingredients of its own rules only:
  a hit none of whose rules has a Low or Out trigger is in the patron response with
  availability In Stock, whatever the stock of any ingredient its rules do not name.
\<close>

theorem untriggered_item_is_served:
  assumes "h \<in> set hits"
    and "\<forall>s\<in>set (hit_substitutions h).
           \<not> is_out stock (trigger_ingredient s) \<and> \<not> is_low stock thr (trigger_ingredient s)"
  shows "to_result (parse_hit h) \<in> set (patron_search stock thr hits)
    \<and> r_availability_status (to_result (parse_hit h)) = ''In Stock''"
proof -
  from assms(2) have "check_stock_logic stock thr (parse_hit h) = parse_hit h"
    by (intro check_stock_logic_quiet) (simp add: parse_hit_def)
  with assms(1)
  have "parse_hit h \<in> set (map (check_stock_logic stock thr) (find_menu_candidates hits))"
    by (force simp: find_menu_candidates_def)
  then have "parse_hit h \<in> set (rank_results
         (filter (\<lambda>item. availability_status item \<noteq> ''Out of Stock'')
           (map (check_stock_logic stock thr) (find_menu_candidates hits))))"
    by (simp add: rank_results_def parse_hit_def)
  then have "to_result (parse_hit h) \<in> set (patron_search stock thr hits)"
    unfolding patron_search_def Let_def by (simp only: set_map) (rule imageI)
  then show ?thesis
    by (simp add: to_result_def parse_hit_def)
qed

theorem untriggered_item_is_served_witness:
  "burger_hit \<in> set [salad_hit, burger_hit]
   \<and> \<not> is_out pantry (Some ''Bun'') \<and> \<not> is_low pantry Map.empty (Some ''Bun'')
   \<and> is_out pantry (Some ''Beef'')
   \<and> to_result (parse_hit burger_hit) \<in> set (patron_search pantry Map.empty [salad_hit, burger_hit])
   \<and> r_availability_status (to_result (parse_hit burger_hit)) = ''In Stock''"
proof -
  have m: "burger_hit \<in> set [salad_hit, burger_hit]" by simp
  have q: "\<forall>s\<in>set (hit_substitutions burger_hit).
           \<not> is_out pantry (trigger_ingredient s) \<and> \<not> is_low pantry Map.empty (trigger_ingredient s)"
    by (simp add: stock_eval example_data)
  from untriggered_item_is_served [OF m q] show ?thesis
    by (simp add: stock_eval example_data)
qed

subsection \<open>Inventory aggregation\<close>

lemmas lots_eval = demo_lib_def demo_strip_def demo_now_def lot_row_def lots_of_def
  demo_lots_def tomato_lots_def lot_record_def

text \<open>On a complete row, the loop body skips or adds as the specification's words say.\<close>

lemma process_row_complete:
  assumes "complete_row nc qc ec row"
  shows "process_row L nc qc ec (midnight now) row =
     (if spec_lot_expired L ec now row then Skip
      else case py_float L (the (row qc)) of
             None \<Rightarrow> Skip
           | Some q \<Rightarrow> Add (py_strip L (the (row nc))) q)"
  using assms
  by (auto simp: complete_row_def process_row_def read_quantity_def spec_lot_expired_def
      midnight_def Let_def split: option.splits)

lemma spec_lot_quantity_complete:
  assumes "complete_row nc qc ec row"
  shows "spec_lot_quantity L nc qc ec now n row =
     (if py_strip L (the (row nc)) = n \<and> \<not> spec_lot_expired L ec now row
      then py_float L (the (row qc)) else None)"
  using assms by (auto simp: complete_row_def spec_lot_quantity_def split: option.splits)

text \<open>
  The loop from any starting totals: the entry of \<open>n\<close> grows by the sum of the counted
  quantities of \<open>n\<close>, and stays as it is when there is none.
\<close>

lemma load_rows_aggregate:
  assumes "\<forall>row\<in>set rows. complete_row nc qc ec row"
  shows "load_rows L nc qc ec (midnight now) rows totals n =
     (let qs = List.map_filter (spec_lot_quantity L nc qc ec now n) rows
      in if qs = [] then totals n else Some (dict_get totals (Some n) 0 + sum_list qs))"
  using assms
proof (induction rows arbitrary: totals)
  case Nil
  then show ?case by simp
next
  case (Cons row rows)
  then have c: "complete_row nc qc ec row" and rest: "\<forall>row\<in>set rows. complete_row nc qc ec row"
    by simp_all
  note IH = Cons.IH [OF rest]
  show ?case
    by (simp add: process_row_complete [OF c] spec_lot_quantity_complete [OF c] IH
        Let_def dict_get_def split: option.splits)
qed

text \<open>
  On a lots file whose rows are complete, the reloaded levels are the aggregate of
  the specification: each ingredient name (stripped) is mapped to the sum of the
  quantities of its lot rows, leaving out the rows that are expired and the rows whose
  quantity is not a number. A row is expired exactly when its expiration cell parses
  to a date whose day is strictly before the day of the as-of date (the time of day
  plays no part); a cell that does not parse, an empty cell and a file without an
  expiration column never expire a row. A row with a non-numeric quantity is skipped
  and the loop goes on with the rows after it.
\<close>

lemma reload_inventory_aggregates:
  assumes "\<forall>row\<in>set rows. complete_row nc qc ec row"
  shows "reload_inventory L now
           (Some \<lparr>name_col = Some nc, qty_col = Some qc, exp_col = ec, lot_rows = rows\<rparr>) old
         = spec_aggregate L nc qc ec now rows
    \<and> (spec_lot_expired L ec now row \<longleftrightarrow>
         (\<exists>c e d. ec = Some c \<and> row c = Some e \<and> py_strptime L (py_strip L e) = Some d
                  \<and> d < fst now))
    \<and> (complete_row nc qc ec row \<and> py_float L (the (row qc)) = None \<longrightarrow>
         load_rows L nc qc ec (midnight now) (row # rows) totals
         = load_rows L nc qc ec (midnight now) rows totals)"
proof -
  have "reload_inventory L now
           (Some \<lparr>name_col = Some nc, qty_col = Some qc, exp_col = ec, lot_rows = rows\<rparr>) old n
         = spec_aggregate L nc qc ec now rows n" for n
    using load_rows_aggregate [OF assms, of L now Map.empty n]
    by (simp add: reload_inventory_def spec_aggregate_def Let_def dict_get_def)
  then have a: "reload_inventory L now
           (Some \<lparr>name_col = Some nc, qty_col = Some qc, exp_col = ec, lot_rows = rows\<rparr>) old
         = spec_aggregate L nc qc ec now rows"
    by (rule ext)
  have b: "spec_lot_expired L ec now row \<longleftrightarrow>
         (\<exists>c e d. ec = Some c \<and> row c = Some e \<and> py_strptime L (py_strip L e) = Some d
                  \<and> d < fst now)"
    by (auto simp: spec_lot_expired_def split: option.splits)
  have c: "load_rows L nc qc ec (midnight now) (row # rows) totals
         = load_rows L nc qc ec (midnight now) rows totals"
    if "complete_row nc qc ec row" "py_float L (the (row qc)) = None"
    using that by (simp add: process_row_complete)
  from a b c show ?thesis by blast
qed

text \<open>
  Read on 4 November: the Tomato lot that expired on 3 November is left out, the lot
  that expires on 4 November and the lot with the date ``soon'' count (3 + 2.5); the
  Onion row with the quantity ``lots'' is skipped and the Onion row after it, which has
  no date, counts; Beef has no lot and is not tracked.
\<close>

lemma reload_inventory_aggregates_demo:
  "list_all (complete_row ''IngredientName'' ''CurrentQuantity'' (Some ''ExpirationDate'')) demo_lots
   \<and> reload_inventory demo_lib demo_now (Some (lots_of demo_lots)) Map.empty ''Tomato''
      = Some (11 / 2)
   \<and> reload_inventory demo_lib demo_now (Some (lots_of demo_lots)) Map.empty ''Onion'' = Some 7
   \<and> reload_inventory demo_lib demo_now (Some (lots_of demo_lots)) Map.empty ''Beef'' = None
   \<and> spec_lot_expired demo_lib (Some ''ExpirationDate'') demo_now
        (lot_row ''Tomato'' ''5'' ''11/03/2026'')
   \<and> \<not> spec_lot_expired demo_lib (Some ''ExpirationDate'') demo_now
        (lot_row ''Tomato'' ''3'' ''11/04/2026'')
   \<and> \<not> spec_lot_expired demo_lib (Some ''ExpirationDate'') demo_now
        (lot_row '' Tomato '' ''2.5'' ''soon'')"
proof -
  have c: "\<forall>row\<in>set demo_lots.
             complete_row ''IngredientName'' ''CurrentQuantity'' (Some ''ExpirationDate'') row"
    by (simp add: demo_lots_def lot_row_def complete_row_def)
  from reload_inventory_aggregates [OF c, of demo_lib demo_now Map.empty] c
  show ?thesis
    by (simp add: spec_aggregate_def spec_lot_quantity_def spec_lot_expired_def Let_def
        lots_eval list_all_iff)
qed

text \<open>
  A row that lacks a cell is not complete, and there the loop does not do what the
  comment in its body says (``if date is invalid or missing, we default to counting
  it''): the cell reads as \<open>None\<close>, \<^verbatim>\<open>None.strip()\<close> raises, and the only handler
  that catches it stands outside the loop.
\<close>

lemma process_row_short:
  "row ec = None \<Longrightarrow> row nc \<noteq> None \<Longrightarrow> process_row L nc qc (Some ec) today row = Raise"
  by (auto simp: process_row_def Let_def)

lemma load_rows_short:
  "row ec = None \<Longrightarrow> row nc \<noteq> None
   \<Longrightarrow> load_rows L nc qc (Some ec) today (row # rows) totals = totals"
  by (simp add: process_row_short)

text \<open>
  C6. The aggregation is to map every ingredient to the sum of its lots, counting a
  lot whose expiration date is absent, and to go on after a row that it cannot read.
  The lots file \<open>short_lots\<close> has the line \<^verbatim>\<open>L5,Tomato,Produce,5,kg\<close>, without an
  expiration cell, and then a full line for Onion with the quantity 7 and the date
  25 December. The aggregate in the specification's words has Tomato 5 and Onion 7.
  The code stops at the Tomato line: the reloaded levels track neither Tomato nor
  Onion, and both read as quantity 0, that is Out.
\<close>

theorem short_row_stops_load:
  "short_lot_row ''Tomato'' ''5'' ''ExpirationDate'' = None
   \<and> spec_aggregate demo_lib ''IngredientName'' ''CurrentQuantity'' (Some ''ExpirationDate'')
        demo_now short_lots ''Tomato'' = Some 5
   \<and> spec_aggregate demo_lib ''IngredientName'' ''CurrentQuantity'' (Some ''ExpirationDate'')
        demo_now short_lots ''Onion'' = Some 7
   \<and> reload_inventory demo_lib demo_now (Some (lots_of short_lots)) Map.empty ''Tomato'' = None
   \<and> reload_inventory demo_lib demo_now (Some (lots_of short_lots)) Map.empty ''Onion'' = None
   \<and> is_out (reload_inventory demo_lib demo_now (Some (lots_of short_lots)) Map.empty)
        (Some ''Onion'')"
  by (simp add: spec_aggregate_def spec_lot_quantity_def spec_lot_expired_def Let_def
      reload_inventory_def process_row_def is_out_def get_quantity_def dict_get_def
      short_lot_row_def short_lots_def lots_eval)

subsection \<open>Owner full listing\<close>

lemma listed_record_name:
  "listed_record meta \<Longrightarrow> meta ''ingredient_name'' = Some (MStr (record_name meta))"
  by (auto simp: listed_record_def record_name_def split: option.splits mval.splits)

lemma record_name_key:
  "m ''ingredient_name'' = m' ''ingredient_name'' \<Longrightarrow> record_name m = record_name m'"
  by (simp add: record_name_def)

lemma inventory_entry_listed:
  "listed_record meta \<Longrightarrow> inventory_entry thr sc meta = Inr (entry_of thr sc meta)"
  by (auto simp: listed_record_def inventory_entry_def meta_get_def as_key_def record_name_def
      record_quantity_def entry_of_def Let_def split: option.splits mval.splits)

text \<open>The loop lists the records that are first for their name, one entry each.\<close>

lemma inventory_loop_listed:
  "\<forall>meta\<in>set ms. listed_record meta
   \<Longrightarrow> inventory_loop thr ms seen = Inr (map (entry_of thr 1) (first_records ms seen))"
  by (induction ms arbitrary: seen) (simp_all add: inventory_entry_listed Let_def)

lemma first_records_names:
  "distinct (map (\<lambda>m. m ''ingredient_name'') (first_records ms seen))
   \<and> set (map (\<lambda>m. m ''ingredient_name'') (first_records ms seen))
       = (\<lambda>m. m ''ingredient_name'') ` set ms - set seen"
  by (induction ms arbitrary: seen) auto

lemma first_records_subset: "set (first_records ms seen) \<subseteq> set ms"
  by (induction ms arbitrary: seen) auto

lemma first_records_unseen:
  "m \<in> set (first_records ms seen) \<Longrightarrow> m ''ingredient_name'' \<notin> set seen"
  using first_records_names [of ms seen] by auto

lemma first_records_find:
  "m \<in> set (first_records ms seen)
   \<Longrightarrow> find (\<lambda>x. x ''ingredient_name'' = m ''ingredient_name'') ms = Some m"
proof (induction ms arbitrary: seen)
  case Nil
  then show ?case by simp
next
  case (Cons meta rest)
  show ?case
  proof (cases "meta ''ingredient_name'' \<in> set seen")
    case True
    with Cons.prems have m: "m \<in> set (first_records rest seen)" by simp
    from first_records_unseen [OF m] True
    have "meta ''ingredient_name'' \<noteq> m ''ingredient_name''" by auto
    with Cons.IH [OF m] show ?thesis by simp
  next
    case False
    show ?thesis
    proof (cases "m = meta")
      case True
      then show ?thesis by simp
    next
      case ne: False
      with Cons.prems False
      have m: "m \<in> set (first_records rest (meta ''ingredient_name'' # seen))" by simp
      from first_records_unseen [OF m]
      have "meta ''ingredient_name'' \<noteq> m ''ingredient_name''" by auto
      with Cons.IH [OF m] show ?thesis by simp
    qed
  qed
qed

lemma find_record_name:
  assumes "\<forall>meta\<in>set ms. listed_record meta" "listed_record m"
  shows "find (\<lambda>x. record_name x = record_name m) ms
         = find (\<lambda>x. x ''ingredient_name'' = m ''ingredient_name'') ms"
  using assms by (intro find_cong) (auto simp: listed_record_name)

lemma distinct_map_map: "distinct (map g (map f xs)) \<Longrightarrow> distinct (map f xs)"
  by (induction xs) auto

lemma first_records_record_names:
  assumes "\<forall>meta\<in>set ms. listed_record meta"
  shows "distinct (map record_name (first_records ms []))
     \<and> set (map record_name (first_records ms [])) = record_name ` set ms"
proof -
  let ?firsts = "first_records ms []"
  have listed: "listed_record m" if "m \<in> set ?firsts" for m
    using that assms first_records_subset [of ms "[]"] by blast
  have key: "map (\<lambda>m. m ''ingredient_name'') ?firsts
               = map (Some \<circ> MStr) (map record_name ?firsts)"
    using listed by (simp add: listed_record_name)
  have "distinct (map (Some \<circ> MStr) (map record_name ?firsts))"
    using first_records_names [of ms "[]"] key by simp
  then have d: "distinct (map record_name ?firsts)"
    by (rule distinct_map_map)
  have "record_name m \<in> record_name ` set ?firsts" if "m \<in> set ms" for m
  proof -
    from that first_records_names [of ms "[]"]
    have "m ''ingredient_name'' \<in> (\<lambda>m. m ''ingredient_name'') ` set ?firsts" by auto
    then obtain m' where "m' \<in> set ?firsts" "m ''ingredient_name'' = m' ''ingredient_name''"
      by blast
    then show ?thesis using record_name_key by blast
  qed
  then have "record_name ` set ?firsts = record_name ` set ms"
    using first_records_subset [of ms "[]"] by blast
  with d show ?thesis by simp
qed

text \<open>
  What the loop does on records that carry the keys it reads. It takes the quantity
  from the first record of a name, not from the inventory manager: were Tomato's two
  lots, 0 and 100, stored under those keys, the listing would show Tomato once with
  the quantity 0 and the status Out, while the tracked quantity is 100.
\<close>

lemma first_lot_quantity_listed:
  "get_quantity (reload_inventory demo_lib demo_now (Some (lots_of tomato_lots)) Map.empty)
     (Some ''Tomato'') = 100
   \<and> stock_status 100 (get_threshold Map.empty (Some ''Tomato'')) = ''High''
   \<and> get_inventory Map.empty (Some [lot_record ''Tomato'' 0, lot_record ''Tomato'' 100])
     = Inr [\<lparr>ingredient_name = ''Tomato'', category = ''Produce'', current_quantity = 0,
             unit = ''kg'', score = 1, status = ''Out''\<rparr>]"
  by (simp add: get_quantity_def get_threshold_def dict_get_def DEFAULT_LOW_THRESHOLD_def
      stock_status_def reload_inventory_def midnight_def process_row_def read_quantity_def
      get_inventory_def inventory_entry_def meta_get_def as_key_def Let_def lots_eval)

text \<open>
  On such records the listing returns without an error; every ingredient name of the
  collection appears in it exactly once; every entry has the score 1.0, the quantity
  of the first record of its name, and the status of that quantity against the
  threshold of its name (at most 0 is Out, else below the threshold is Low, else High).
\<close>

lemma full_listing_first_records:
  assumes "\<forall>meta\<in>set metadatas. listed_record meta"
  shows "\<exists>output. get_inventory thr (Some metadatas) = Inr output
     \<and> distinct (map ingredient_name output)
     \<and> set (map ingredient_name output) = record_name ` set metadatas
     \<and> (\<forall>r\<in>set output. score r = 1
          \<and> (\<exists>meta. find (\<lambda>m. record_name m = ingredient_name r) metadatas = Some meta
                \<and> current_quantity r = record_quantity meta
                \<and> status r = stock_status (record_quantity meta)
                              (get_threshold thr (Some (ingredient_name r)))))"
proof -
  let ?firsts = "first_records metadatas []"
  let ?output = "map (entry_of thr 1) ?firsts"
  have listed: "listed_record m" if "m \<in> set ?firsts" for m
    using that assms first_records_subset [of metadatas "[]"] by blast
  have run: "get_inventory thr (Some metadatas) = Inr ?output"
    by (simp add: get_inventory_def inventory_loop_listed [OF assms])
  have names: "map ingredient_name ?output = map record_name ?firsts"
    by (simp add: entry_of_def)
  have each: "score r = 1
          \<and> (\<exists>meta. find (\<lambda>m. record_name m = ingredient_name r) metadatas = Some meta
                \<and> current_quantity r = record_quantity meta
                \<and> status r = stock_status (record_quantity meta)
                              (get_threshold thr (Some (ingredient_name r))))"
    if "r \<in> set ?output" for r
  proof -
    from that obtain m where m: "m \<in> set ?firsts" and r: "r = entry_of thr 1 m" by auto
    from first_records_find [OF m] find_record_name [OF assms listed [OF m]]
    have "find (\<lambda>x. record_name x = record_name m) metadatas = Some m" by simp
    with r show ?thesis by (simp add: entry_of_def)
  qed
  from run names first_records_record_names [OF assms] each show ?thesis
    by (intro exI [of _ ?output]) (simp del: map_map)
qed

text \<open>
  Three records, two of them for Onion, with the override 10 for Onion: Onion is
  listed once, with its first record's 4 (Low against 10), and Flour with 15, which is
  not below the default 15 (High).
\<close>

lemma full_listing_first_records_demo:
  "list_all listed_record [lot_record ''Onion'' 4, lot_record ''Flour'' 15, lot_record ''Onion'' 0]
   \<and> get_inventory [''Onion'' \<mapsto> 10]
        (Some [lot_record ''Onion'' 4, lot_record ''Flour'' 15, lot_record ''Onion'' 0])
     = Inr [\<lparr>ingredient_name = ''Onion'', category = ''Produce'', current_quantity = 4,
             unit = ''kg'', score = 1, status = ''Low''\<rparr>,
            \<lparr>ingredient_name = ''Flour'', category = ''Produce'', current_quantity = 15,
             unit = ''kg'', score = 1, status = ''High''\<rparr>]"
proof -
  have l: "\<forall>meta\<in>set [lot_record ''Onion'' 4, lot_record ''Flour'' 15, lot_record ''Onion'' 0].
             listed_record meta"
    by (simp add: listed_record_def lot_record_def)
  from full_listing_first_records [OF l, of "[''Onion'' \<mapsto> 10]"] l
  show ?thesis
    by (simp add: get_inventory_def inventory_entry_def meta_get_def as_key_def Let_def
        stock_status_def get_threshold_def dict_get_def DEFAULT_LOW_THRESHOLD_def
        lot_record_def list_all_iff)
qed

text \<open>
  The ingestion script writes the keys \<^verbatim>\<open>IngredientName\<close>, \<^verbatim>\<open>CurrentQuantity\<close>,
  \<^verbatim>\<open>Category\<close> and \<^verbatim>\<open>DefaultUnit\<close>; the listing reads \<^verbatim>\<open>ingredient_name\<close>,
  \<^verbatim>\<open>current_quantity\<close>, \<^verbatim>\<open>category\<close> and \<^verbatim>\<open>unit\<close>. On the records of a
  collection that the script has filled, the listing finds no name in the first record
  and ends with a validation error.
\<close>

lemma ingest_row_keys:
  "ingest_row L row = Inr m \<Longrightarrow> m ''ingredient_name'' = None \<and> m ''current_quantity'' = None
     \<and> m ''category'' = None \<and> m ''unit'' = None"
  by (auto simp: ingest_row_def split: option.splits)

lemma listing_of_ingested_collection:
  assumes "ingest_inventory L rows = Inr ms" and "ms \<noteq> []"
  shows "get_inventory thr (Some ms) = Inl ValidationError"
proof (cases rows)
  case Nil
  with assms show ?thesis by simp
next
  case (Cons row rest)
  with assms(1) obtain m ms' where "ingest_row L row = Inr m" and ms: "ms = m # ms'"
    by (auto split: sum.splits)
  then have "inventory_entry thr 1 m = Inl ValidationError"
    using ingest_row_keys [of L row m]
    by (simp add: inventory_entry_def meta_get_def Let_def)
  moreover have "m ''ingredient_name'' = None"
    using \<open>ingest_row L row = Inr m\<close> ingest_row_keys by blast
  ultimately show ?thesis
    by (simp add: ms get_inventory_def Let_def)
qed

lemma ingested_records_not_listed:
  "ingest_row L row = Inr m \<Longrightarrow> \<not> listed_record m"
  using ingest_row_keys [of L row m] by (simp add: listed_record_def)

text \<open>
  C4. The owner's full listing is to return every tracked ingredient exactly once,
  with the constant score and the status of its quantity against its threshold. The
  lots file \<open>tomato_lots\<close> has two Tomato lots, 0 and 100, without dates; the
  inventory manager tracks Tomato with the quantity 100. \<^verbatim>\<open>ingest_inventory\<close>
  writes one record per lot, under the keys \<^verbatim>\<open>IngredientName\<close> and
  \<^verbatim>\<open>CurrentQuantity\<close>; the records have no \<^verbatim>\<open>ingredient_name\<close>. On these
  records the listing does not return a list: it ends with a validation error at the
  first record, and Tomato is not listed.
\<close>

theorem ingested_lots_listing_fails:
  "ingest_inventory demo_lib tomato_lots
     = Inr [ingested_lot ''Tomato'' 0 [], ingested_lot ''Tomato'' 100 []]
   \<and> ingested_lot ''Tomato'' 0 [] ''ingredient_name'' = None
   \<and> reload_inventory demo_lib demo_now (Some (lots_of tomato_lots)) Map.empty ''Tomato''
      = Some 100
   \<and> get_inventory Map.empty (Some [ingested_lot ''Tomato'' 0 [], ingested_lot ''Tomato'' 100 []])
      = Inl ValidationError"
proof -
  have i: "ingest_inventory demo_lib tomato_lots
             = Inr [ingested_lot ''Tomato'' 0 [], ingested_lot ''Tomato'' 100 []]"
    by (simp add: ingest_row_def ingested_lot_def lots_eval)
  have t: "reload_inventory demo_lib demo_now (Some (lots_of tomato_lots)) Map.empty ''Tomato''
             = Some 100"
    by (simp add: reload_inventory_def midnight_def process_row_def read_quantity_def
        dict_get_def lots_eval)
  from listing_of_ingested_collection [OF i] i t show ?thesis
    by (simp add: ingested_lot_def)
qed

end
